theory Spec2Isabelle
  imports Main
begin

section \<open>Python strings and numbers used by the scripts\<close>

text \<open>
  A Python \<open>str\<close> is modelled as a \<open>string\<close> whose characters stand for the code points
  0 to 255. The lines of an open text file are the elements of a \<open>string list\<close>, each
  line as the iteration over the file yields it (that is, with its line terminator).
\<close>

definition is_space :: "char \<Rightarrow> bool" where
  \<comment> \<open>\<open>str.isspace\<close> on one character, the set \<open>str.strip()\<close> removes.\<close>
  "is_space c =
     (let n = (of_char c :: nat)
      in (9 \<le> n \<and> n \<le> 13) \<or> (28 \<le> n \<and> n \<le> 32) \<or> n = 133 \<or> n = 160)"

definition strip :: "string \<Rightarrow> string" where
  \<comment> \<open>\<open>s.strip()\<close>\<close>
  "strip s = rev (dropWhile is_space (rev (dropWhile is_space s)))"

fun split_on :: "char \<Rightarrow> string \<Rightarrow> string list" where
  \<comment> \<open>\<open>s.split(sep)\<close> for a separator of one character: never an empty list.\<close>
  "split_on sep [] = [[]]"
| "split_on sep (c # cs) =
     (if c = sep then [] # split_on sep cs
      else (case split_on sep cs of
              [] \<Rightarrow> [[c]]
            | t # ts \<Rightarrow> (c # t) # ts))"

fun join :: "string \<Rightarrow> string list \<Rightarrow> string" where
  \<comment> \<open>\<open>sep.join(xs)\<close>\<close>
  "join sep [] = []"
| "join sep [x] = x"
| "join sep (x # y # ys) = x @ sep @ join sep (y # ys)"

definition digit_char :: "nat \<Rightarrow> char" where
  "digit_char n = ''0123456789'' ! n"

fun str_nat :: "nat \<Rightarrow> string" where
  \<comment> \<open>\<open>str(n)\<close> for an int \<open>n \<ge> 0\<close>\<close>
  "str_nat n = (if n < 10 then [digit_char n] else str_nat (n div 10) @ [digit_char (n mod 10)])"

declare str_nat.simps [simp del]

definition str_int :: "int \<Rightarrow> string" where
  \<comment> \<open>\<open>str(i)\<close> for an int\<close>
  "str_int i = (if i < 0 then CHR ''-'' # str_nat (nat (- i)) else str_nat (nat i))"

text \<open>The exceptions the modelled code can raise; \<open>Other_exception\<close> is any other one.\<close>

datatype py_exn =
    ValueError | KeyError | TypeError | IndexError | OverflowError | Other_exception

subsection \<open>The built-in \<open>float(str)\<close>\<close>

text \<open>
  \<open>float\<close> accepts, between optional white space, an optional sign followed by
  \<open>inf\<close>, \<open>infinity\<close> or \<open>nan\<close> in any letter case, or by a decimal number with an
  optional exponent; single underscores may separate digits. Anything else raises
  ValueError. The result is the binary64 number nearest to the literal (an infinity or a
  zero when the literal is out of range); the model keeps the literal itself (sign,
  decimal digits, power of ten) and leaves the rounding out, so it tells which strings
  \<open>float\<close> accepts and which number they denote, not which float they round to.
\<close>

datatype py_float = FNan | FInf bool | FDec bool nat int

definition is_digit :: "char \<Rightarrow> bool" where
  "is_digit c = (let n = (of_char c :: nat) in 48 \<le> n \<and> n \<le> 57)"

definition digit_val :: "char \<Rightarrow> nat" where
  "digit_val c = of_char c - 48"

definition nat_of_digits :: "string \<Rightarrow> nat" where
  "nat_of_digits ds = foldl (\<lambda>a c. 10 * a + digit_val c) 0 ds"

definition float_space :: "char \<Rightarrow> bool" where
  \<comment> \<open>The white space \<open>float\<close> itself skips at both ends of its argument.\<close>
  "float_space c =
     (let n = (of_char c :: nat)
      in (9 \<le> n \<and> n \<le> 13) \<or> n = 32 \<or> n = 133 \<or> n = 160)"

definition to_lower :: "char \<Rightarrow> char" where
  "to_lower c =
     (let n = (of_char c :: nat) in if 65 \<le> n \<and> n \<le> 90 then char_of (n + 32) else c)"

definition sign :: "string \<Rightarrow> bool \<times> string" where
  \<comment> \<open>An optional sign: whether it is a minus, and the rest.\<close>
  "sign s =
     (case s of
        [] \<Rightarrow> (False, [])
      | c # r \<Rightarrow> if c = CHR ''-'' then (True, r)
                 else if c = CHR ''+'' then (False, r)
                 else (False, s))"

fun digitpart_tail :: "string \<Rightarrow> string \<times> string" where
  \<comment> \<open>After a first digit: further digits, each optionally preceded by one underscore.\<close>
  "digitpart_tail [] = ([], [])"
| "digitpart_tail [c] = (if is_digit c then ([c], []) else ([], [c]))"
| "digitpart_tail (c # d # cs) =
     (if is_digit c then (case digitpart_tail (d # cs) of (ds, r) \<Rightarrow> (c # ds, r))
      else if c = CHR ''_'' \<and> is_digit d then (case digitpart_tail cs of (ds, r) \<Rightarrow> (d # ds, r))
      else ([], c # d # cs))"

definition digitpart :: "string \<Rightarrow> (string \<times> string) option" where
  \<comment> \<open>The digits of a leading digit part (underscores dropped), and the rest.\<close>
  "digitpart s =
     (case s of
        [] \<Rightarrow> None
      | c # cs \<Rightarrow> if is_digit c then (case digitpart_tail cs of (ds, r) \<Rightarrow> Some (c # ds, r))
                  else None)"

definition number :: "string \<Rightarrow> ((string \<times> string) \<times> string) option" where
  \<comment> \<open>\<open>[digitpart] "." digitpart | digitpart ["."]\<close>: integer digits, fraction digits, rest.\<close>
  "number s =
     (case digitpart s of
        Some (ip, r) \<Rightarrow>
          (case r of
             [] \<Rightarrow> Some ((ip, []), [])
           | c # r' \<Rightarrow>
               if c = CHR ''.'' then
                 (case digitpart r' of
                    Some (fp, r'') \<Rightarrow> Some ((ip, fp), r'')
                  | None \<Rightarrow> Some ((ip, []), r'))
               else Some ((ip, []), r))
      | None \<Rightarrow>
          (case s of
             [] \<Rightarrow> None
           | c # r' \<Rightarrow>
               if c = CHR ''.'' then
                 (case digitpart r' of
                    Some (fp, r'') \<Rightarrow> Some (([], fp), r'')
                  | None \<Rightarrow> None)
               else None))"

definition exponent :: "string \<Rightarrow> int option" where
  \<comment> \<open>What follows the number, up to the end: nothing, or \<open>e\<close>/\<open>E\<close>, a sign and digits.\<close>
  "exponent r =
     (case r of
        [] \<Rightarrow> Some 0
      | c # r' \<Rightarrow>
          if c = CHR ''e'' \<or> c = CHR ''E'' then
            (case sign r' of
               (neg, r'') \<Rightarrow>
                 (case digitpart r'' of
                    Some (ds, []) \<Rightarrow>
                      Some (if neg then - int (nat_of_digits ds) else int (nat_of_digits ds))
                  | _ \<Rightarrow> None))
          else None)"

definition py_float :: "string \<Rightarrow> py_float option" where
  \<comment> \<open>\<open>float(s)\<close>; \<open>None\<close> is ValueError.\<close>
  "py_float s =
     (case sign (rev (dropWhile float_space (rev (dropWhile float_space s)))) of
        (neg, u) \<Rightarrow>
          if map to_lower u = ''inf'' \<or> map to_lower u = ''infinity'' then Some (FInf neg)
          else if map to_lower u = ''nan'' then Some FNan
          else
            (case number u of
               None \<Rightarrow> None
             | Some ((ip, fp), r) \<Rightarrow>
                 (case exponent r of
                    None \<Rightarrow> None
                  | Some e \<Rightarrow> Some (FDec neg (nat_of_digits (ip @ fp)) (e - int (length fp))))))"

section \<open>document_indexing.py\<close>

definition BATCH_SIZE :: nat where
  "BATCH_SIZE = 100"

fun floats :: "string list \<Rightarrow> py_float list option" where
  \<comment> \<open>\<open>[float(w) for w in ws]\<close>; \<open>None\<close> is the ValueError of the first bad token.\<close>
  "floats [] = Some []"
| "floats (w # ws) =
     (case py_float w of
        None \<Rightarrow> None
      | Some x \<Rightarrow> (case floats ws of None \<Rightarrow> None | Some xs \<Rightarrow> Some (x # xs)))"

definition parse_vector :: "string \<Rightarrow> py_float list option" where
  \<comment> \<open>\<open>[float(w) for w in vector_string.strip().split(",")]\<close>\<close>
  "parse_vector vector_string = floats (split_on CHR '','' (strip vector_string))"

text \<open>The dict \<open>doc\<close> built for each record, with its keys \<open>id\<close>, \<open>text\<close> and \<open>vector\<close>.\<close>

record doc =
  doc_id :: string
  doc_text :: string
  doc_vector :: "py_float list"

text \<open>
  The backend is outside the repository. \<open>solr.add\<close> is a parameter: given the batches
  of the earlier calls and the batch of this call, it acknowledges, raises ValueError,
  or raises any other exception.
\<close>

datatype add_outcome = Ack | Raises_ValueError | Raises_other

type_synonym solr = "doc list list \<Rightarrow> doc list \<Rightarrow> add_outcome"

text \<open>What the function prints, without the wording of the messages.\<close>

datatype event =
    Indexed nat
  | Error_processing nat
  | Indexed_remaining nat
  | Indexing_finished

text \<open>
  The state of a run: the list \<open>documents\<close>, the batches \<open>solr.add\<close> has been called
  with so far (in call order, whatever the outcome of the call), and the output.
\<close>

record idx_state =
  documents :: "doc list"
  add_calls :: "doc list list"
  printed :: "event list"

fun index_loop :: "solr \<Rightarrow> idx_state \<Rightarrow> nat \<Rightarrow> (string \<times> string) list \<Rightarrow> py_exn + idx_state" where
  \<comment> \<open>The \<open>for index, (document, vector_string) in enumerate(zip(...))\<close> loop.\<close>
  "index_loop solr st index [] = Inr st"
| "index_loop solr st index ((document, vector_string) # rest) =
     (case parse_vector vector_string of
        None \<Rightarrow>
          index_loop solr (st\<lparr>printed := printed st @ [Error_processing index]\<rparr>) (Suc index) rest
      | Some vector \<Rightarrow>
          (let docs = documents st @
                 [\<lparr>doc_id = str_nat index, doc_text = strip document, doc_vector = vector\<rparr>]
           in if index mod BATCH_SIZE = 0 \<and> index \<noteq> 0 then
                (case solr (add_calls st) docs of
                   Ack \<Rightarrow>
                     index_loop solr
                       (st\<lparr>documents := [], add_calls := add_calls st @ [docs],
                           printed := printed st @ [Indexed index]\<rparr>)
                       (Suc index) rest
                 | Raises_ValueError \<Rightarrow>
                     index_loop solr
                       (st\<lparr>documents := docs, add_calls := add_calls st @ [docs],
                           printed := printed st @ [Error_processing index]\<rparr>)
                       (Suc index) rest
                 | Raises_other \<Rightarrow> Inl Other_exception)
              else index_loop solr (st\<lparr>documents := docs\<rparr>) (Suc index) rest))"

definition index_documents :: "solr \<Rightarrow> string list \<Rightarrow> string list \<Rightarrow> py_exn + idx_state" where
  "index_documents solr documents_file vectors_file =
     (case index_loop solr \<lparr>documents = [], add_calls = [], printed = []\<rparr> 0
             (zip documents_file vectors_file) of
        Inl e \<Rightarrow> Inl e
      | Inr st \<Rightarrow>
          if documents st \<noteq> [] then
            (case solr (add_calls st) (documents st) of
               Ack \<Rightarrow>
                 Inr (st\<lparr>add_calls := add_calls st @ [documents st],
                         printed := printed st @
                           [Indexed_remaining (length (documents st)), Indexing_finished]\<rparr>)
             | Raises_ValueError \<Rightarrow> Inl ValueError
             | Raises_other \<Rightarrow> Inl Other_exception)
          else Inr (st\<lparr>printed := printed st @ [Indexing_finished]\<rparr>))"

definition ack_all :: solr where
  \<comment> \<open>A backend that acknowledges every call.\<close>
  "ack_all = (\<lambda>calls batch. Ack)"

section \<open>vector_generation.py\<close>

text \<open>
  The embedding model and numpy's \<open>str\<close> of a vector component are outside the
  repository: \<open>model\<close> stands for \<open>model.encode\<close> (a batch of documents to their
  embeddings) and \<open>str_c\<close> for \<open>str\<close> on a component.
\<close>

definition INFO_UPDATE_FACTOR :: nat where
  "INFO_UPDATE_FACTOR = 1"

datatype gen_event = Processed nat | Vector_dimension nat

definition encode :: "(string list \<Rightarrow> 'c list list) \<Rightarrow> string list \<Rightarrow> py_exn + 'c list list \<times> gen_event" where
  \<comment> \<open>\<open>encode(model, documents)\<close>: \<open>embeddings[0]\<close> raises IndexError on no embedding.\<close>
  "encode model docs =
     (case model docs of
        [] \<Rightarrow> Inl IndexError
      | e # es \<Rightarrow> Inr (e # es, Vector_dimension (length e)))"

text \<open>
  The state of a run: the text written to the output file (it is opened with \<open>w+\<close>,
  so it starts empty), the batch counter, and the output.
\<close>

record gen_state =
  out :: string
  processed :: nat
  gen_printed :: "gen_event list"

fun write_vectors :: "('c \<Rightarrow> string) \<Rightarrow> string \<Rightarrow> 'c list list \<Rightarrow> string" where
  \<comment> \<open>\<open>for v in vectors: out.write(','.join([str(i) for i in v])); out.write('\n')\<close>\<close>
  "write_vectors str_c f [] = f"
| "write_vectors str_c f (v # vs) =
     write_vectors str_c (f @ join '','' (map str_c v) @ [CHR 0x0A]) vs"

function batch_loop ::
  "(string list \<Rightarrow> 'c list list) \<Rightarrow> ('c \<Rightarrow> string) \<Rightarrow> gen_state \<Rightarrow> string list \<Rightarrow> py_exn + gen_state" where
  \<comment> \<open>\<open>for n_lines in iter(lambda: tuple(islice(documents_file, BATCH_SIZE)), ())\<close>\<close>
  "batch_loop model str_c st documents_file =
     (let n_lines = take BATCH_SIZE documents_file
      in if n_lines = [] then Inr st
         else
           (let p = processed st + 1;
                pr = (if p mod INFO_UPDATE_FACTOR = 0 then [Processed p] else [])
            in case encode model n_lines of
                 Inl e \<Rightarrow> Inl e
               | Inr (vectors, msg) \<Rightarrow>
                   batch_loop model str_c
                     \<lparr>out = write_vectors str_c (out st) vectors, processed = p,
                      gen_printed = gen_printed st @ pr @ [msg]\<rparr>
                     (drop BATCH_SIZE documents_file)))"
  by pat_completeness auto
termination
  by (relation "measure (\<lambda>(model, str_c, st, documents_file). length documents_file)")
     (auto simp: BATCH_SIZE_def)

declare batch_loop.simps [simp del]

definition batch_encode_to_vectors ::
  "(string list \<Rightarrow> 'c list list) \<Rightarrow> ('c \<Rightarrow> string) \<Rightarrow> string list \<Rightarrow> py_exn + gen_state" where
  "batch_encode_to_vectors model str_c documents_file =
     batch_loop model str_c \<lparr>out = [], processed = 0, gen_printed = []\<rparr> documents_file"

section \<open>neural_search_tester.py\<close>

text \<open>
  A value decoded from JSON, which is also the shape of the payloads the tester posts.
  The type \<open>'f\<close> is Python's float. A dict is the list of its items in insertion
  order, with distinct keys.
\<close>

datatype 'f json =
    JNull
  | JBool bool
  | JInt int
  | JFloat 'f
  | JStr string
  | JList "'f json list"
  | JDict "(string \<times> 'f json) list"

datatype http_method = GET | POST

record 'f request =
  req_method :: http_method
  req_url :: string
  req_json :: "'f json option"
  req_params :: "(string \<times> string) list"

text \<open>
  What \<open>requests.get\<close> or \<open>requests.post\<close>, followed by \<open>raise_for_status()\<close> and
  \<open>json()\<close>, comes to: a \<open>RequestException\<close>, another exception, or the decoded body.
\<close>

datatype 'f http_outcome = Request_exception | Raises py_exn | Response "'f json"

text \<open>
  The tester object with what it depends on: \<open>self.solr_url\<close>, \<open>self.model.encode\<close>,
  the HTTP exchange, and \<open>repr\<close> and truth value of a float.
\<close>

record 'f tester =
  solr_url :: string
  self_model :: "string list \<Rightarrow> 'f list list"
  http :: "'f request \<Rightarrow> 'f http_outcome"
  float_repr :: "'f \<Rightarrow> string"
  float_nonzero :: "'f \<Rightarrow> bool"

text \<open>
  The output: \<open>Msg\<close> is a line of text; the other events stand for the lines that
  format values of the response, and carry those values.
\<close>

datatype 'f tevent =
    Msg string
  | Filter_ids "string list"
  | Request_error string
  | Rerank_error
  | Found "'f json"
  | Doc_line nat "'f json" "'f json"
  | Text_line "'f json"

definition quote :: char where
  "quote = CHR 0x27"

definition newline :: char where
  "newline = CHR 0x0A"

fun truthy :: "('f \<Rightarrow> bool) \<Rightarrow> 'f json \<Rightarrow> bool" where
  \<comment> \<open>\<open>if result:\<close>\<close>
  "truthy nz JNull = False"
| "truthy nz (JBool b) = b"
| "truthy nz (JInt i) = (i \<noteq> 0)"
| "truthy nz (JFloat x) = nz x"
| "truthy nz (JStr s) = (s \<noteq> [])"
| "truthy nz (JList xs) = (xs \<noteq> [])"
| "truthy nz (JDict kvs) = (kvs \<noteq> [])"

fun subscript :: "'f json \<Rightarrow> string \<Rightarrow> py_exn + 'f json" where
  \<comment> \<open>\<open>x[key]\<close> for a key that is a str\<close>
  "subscript (JDict kvs) key = (case map_of kvs key of None \<Rightarrow> Inl KeyError | Some v \<Rightarrow> Inr v)"
| "subscript x key = Inl TypeError"

fun iter_items :: "'f json \<Rightarrow> py_exn + 'f json list" where
  \<comment> \<open>The items a \<open>for\<close> loop over the value visits.\<close>
  "iter_items (JList xs) = Inr xs"
| "iter_items (JDict kvs) = Inr (map (\<lambda>kv. JStr (fst kv)) kvs)"
| "iter_items (JStr s) = Inr (map (\<lambda>c. JStr [c]) s)"
| "iter_items x = Inl TypeError"

fun format_4f :: "'f json \<Rightarrow> py_exn option" where
  \<comment> \<open>The exception of formatting the value with \<open>:.4f\<close>, if any; an int is
      converted to a float first, which overflows from \<open>2 ^ 1024 - 2 ^ 970\<close> on.\<close>
  "format_4f (JInt i) =
     (if 2 ^ 1024 - 2 ^ 970 \<le> \<bar>i\<bar> then Some OverflowError else None)"
| "format_4f (JFloat x) = None"
| "format_4f (JBool b) = None"
| "format_4f (JStr s) = Some ValueError"
| "format_4f x = Some TypeError"

fun slice_100 :: "'f json \<Rightarrow> py_exn + 'f json" where
  \<comment> \<open>\<open>x[:100]\<close>\<close>
  "slice_100 (JStr s) = Inr (JStr (take 100 s))"
| "slice_100 (JList xs) = Inr (JList (take 100 xs))"
| "slice_100 x = Inl TypeError"

definition vectorize_query :: "'f tester \<Rightarrow> string \<Rightarrow> py_exn + 'f list" where
  \<comment> \<open>\<open>self.model.encode([query])[0].tolist()\<close>\<close>
  "vectorize_query self query =
     (case self_model self [query] of
        [] \<Rightarrow> Inl IndexError
      | v # vs \<Rightarrow> Inr v)"

definition make_request ::
  "'f tester \<Rightarrow> string \<Rightarrow> 'f json option \<Rightarrow> string \<Rightarrow> (py_exn + 'f json) \<times> 'f tevent list" where
  \<comment> \<open>The value \<open>None\<close> is \<open>JNull\<close>.\<close>
  "make_request self endpoint data method =
     (let u = solr_url self @ endpoint;
          r = (if method = ''POST''
               then http self \<lparr>req_method = POST, req_url = u, req_json = data,
                                 req_params = []\<rparr>
               else http self \<lparr>req_method = GET, req_url = u, req_json = None,
                                 req_params = []\<rparr>)
      in case r of
           Response j \<Rightarrow> (Inr j, [])
         | Request_exception \<Rightarrow> (Inr JNull, [Request_error u])
         | Raises e \<Rightarrow> (Inl e, []))"

fun print_docs :: "nat \<Rightarrow> 'f json list \<Rightarrow> py_exn option \<times> 'f tevent list" where
  \<comment> \<open>The body of \<open>for i, doc in enumerate(..., 1)\<close>, from position \<open>i\<close> on.\<close>
  "print_docs i [] = (None, [])"
| "print_docs i (d # rest) =
     (case subscript d ''id'' of
        Inl e \<Rightarrow> (Some e, [])
      | Inr d_id \<Rightarrow>
     (case subscript d ''score'' of
        Inl e \<Rightarrow> (Some e, [])
      | Inr score \<Rightarrow>
     (case format_4f score of
        Some e \<Rightarrow> (Some e, [])
      | None \<Rightarrow>
     (case subscript d ''text'' of
        Inl e \<Rightarrow> (Some e, [Doc_line i d_id score])
      | Inr t \<Rightarrow>
     (case slice_100 t of
        Inl e \<Rightarrow> (Some e, [Doc_line i d_id score])
      | Inr t100 \<Rightarrow>
     (case print_docs (Suc i) rest of
        (r, ev) \<Rightarrow> (r, Doc_line i d_id score # Text_line t100 # ev)))))))"

definition print_result :: "'f json \<Rightarrow> py_exn option \<times> 'f tevent list" where
  \<comment> \<open>The statements under \<open>if result:\<close>, the same in each test method.\<close>
  "print_result result =
     (case subscript result ''response'' of
        Inl e \<Rightarrow> (Some e, [])
      | Inr resp \<Rightarrow>
     (case subscript resp ''numFound'' of
        Inl e \<Rightarrow> (Some e, [])
      | Inr n \<Rightarrow>
     (case subscript resp ''docs'' of
        Inl e \<Rightarrow> (Some e, [Found n])
      | Inr ds \<Rightarrow>
     (case iter_items ds of
        Inl e \<Rightarrow> (Some e, [Found n])
      | Inr items \<Rightarrow>
     (case print_docs 1 items of
        (r, ev) \<Rightarrow> (r, Found n # ev))))))"

definition execute_query ::
  "'f tester \<Rightarrow> 'f json \<Rightarrow> (py_exn + 'f json) \<times> 'f tevent list" where
  \<comment> \<open>From \<open>result = self.make_request("/select?fl=id,text,score", query_data, 'POST')\<close>
      to \<open>return result\<close>, the same in each test method.\<close>
  "execute_query self query_data =
     (case make_request self ''/select?fl=id,text,score'' (Some query_data) ''POST'' of
        (Inl e, ev) \<Rightarrow> (Inl e, ev)
      | (Inr result, ev) \<Rightarrow>
          if truthy (float_nonzero self) result then
            (case print_result result of
               (Some e, ev') \<Rightarrow> (Inl e, ev @ ev')
             | (None, ev') \<Rightarrow> (Inr result, ev @ ev'))
          else (Inr result, ev))"

definition str_vector :: "('f \<Rightarrow> string) \<Rightarrow> 'f list \<Rightarrow> string" where
  \<comment> \<open>\<open>str\<close> of a list of floats\<close>
  "str_vector repr v = ''['' @ join '', '' (map repr v) @ '']''"

definition knn_clause :: "('f \<Rightarrow> string) \<Rightarrow> int \<Rightarrow> 'f list \<Rightarrow> string" where
  \<comment> \<open>\<open>f"{{!knn f=vector topK={top_k}}}{vector}"\<close>\<close>
  "knn_clause repr top_k v = ''{!knn f=vector topK='' @ str_int top_k @ ''}'' @ str_vector repr v"

definition basic_knn_query_data :: "('f \<Rightarrow> string) \<Rightarrow> int \<Rightarrow> 'f list \<Rightarrow> 'f json" where
  \<comment> \<open>\<open>query_data\<close> of \<open>test_basic_knn_query\<close>\<close>
  "basic_knn_query_data repr top_k v = JDict [(''query'', JStr (knn_clause repr top_k v))]"

definition test_basic_knn_query ::
  "'f tester \<Rightarrow> string \<Rightarrow> int \<Rightarrow> (py_exn + 'f json) \<times> 'f tevent list" where
  "test_basic_knn_query self query top_k =
     (let hdr = [Msg (newline # ''=== Test 1: Basic KNN Query ===''),
                 Msg (''Query: '' @ [quote] @ query @ [quote]),
                 Msg (''TopK: '' @ str_int top_k)]
      in case vectorize_query self query of
           Inl e \<Rightarrow> (Inl e, hdr)
         | Inr v \<Rightarrow>
             (case execute_query self (basic_knn_query_data (float_repr self) top_k v) of
                (r, ev) \<Rightarrow> (r, hdr @ ev)))"

definition prefiltering_query_data ::
  "('f \<Rightarrow> string) \<Rightarrow> int \<Rightarrow> string list \<Rightarrow> 'f list \<Rightarrow> 'f json" where
  \<comment> \<open>\<open>query_data\<close> of \<open>test_knn_with_prefiltering\<close>\<close>
  "prefiltering_query_data repr top_k filter_ids v =
     (let filter_query = ''id:('' @ join '' '' filter_ids @ '')''
      in JDict [(''query'', JStr (knn_clause repr top_k v)), (''filter'', JStr filter_query)])"

definition test_knn_with_prefiltering ::
  "'f tester \<Rightarrow> string \<Rightarrow> string list \<Rightarrow> int \<Rightarrow> (py_exn + 'f json) \<times> 'f tevent list" where
  "test_knn_with_prefiltering self query filter_ids top_k =
     (let hdr = [Msg (newline # ''=== Test 2: KNN with Pre-filtering ===''),
                 Msg (''Query: '' @ [quote] @ query @ [quote]),
                 Filter_ids filter_ids,
                 Msg (''TopK: '' @ str_int top_k)]
      in case vectorize_query self query of
           Inl e \<Rightarrow> (Inl e, hdr)
         | Inr v \<Rightarrow>
             (case execute_query self
                     (prefiltering_query_data (float_repr self) top_k filter_ids v) of
                (r, ev) \<Rightarrow> (r, hdr @ ev)))"

definition hybrid_query_data ::
  "('f \<Rightarrow> string) \<Rightarrow> int \<Rightarrow> string \<Rightarrow> string \<Rightarrow> 'f list \<Rightarrow> 'f json" where
  \<comment> \<open>\<open>query_data\<close> of \<open>test_hybrid_search\<close>\<close>
  "hybrid_query_data repr top_k lexical_field lexical_query v =
     JDict [(''query'',
       JDict [(''bool'',
         JDict [(''should'',
           JList [JStr (''{!type=edismax qf='' @ lexical_field @ '' v='' @ [quote] @
                        lexical_query @ [quote] @ ''}''),
                  JStr (knn_clause repr top_k v)])])])]"

definition test_hybrid_search ::
  "'f tester \<Rightarrow> string \<Rightarrow> string \<Rightarrow> string \<Rightarrow> int \<Rightarrow> (py_exn + 'f json) \<times> 'f tevent list" where
  "test_hybrid_search self query lexical_field lexical_query top_k =
     (let hdr = [Msg (newline # ''=== Test 3: Hybrid Search ===''),
                 Msg (''Neural query: '' @ [quote] @ query @ [quote]),
                 Msg (''Lexical query: '' @ [quote] @ lexical_query @ [quote] @
                      '' in field '' @ [quote] @ lexical_field @ [quote]),
                 Msg (''TopK: '' @ str_int top_k)]
      in case vectorize_query self query of
           Inl e \<Rightarrow> (Inl e, hdr)
         | Inr v \<Rightarrow>
             (case execute_query self
                     (hybrid_query_data (float_repr self) top_k lexical_field lexical_query v) of
                (r, ev) \<Rightarrow> (r, hdr @ ev)))"

definition rerank_params ::
  "('f \<Rightarrow> string) \<Rightarrow> string \<Rightarrow> int \<Rightarrow> int \<Rightarrow> 'f list \<Rightarrow> (string \<times> string) list" where
  \<comment> \<open>\<open>params\<close> of \<open>test_reranking_query\<close>\<close>
  "rerank_params repr initial_query rerank_docs rerank_weight v =
     [(''q'', initial_query),
      (''fl'', ''id,text,score''),
      (''rq'', ''{!rerank reRankQuery=$rqq reRankDocs='' @ str_int rerank_docs @
               '' reRankWeight='' @ str_int rerank_weight @ ''}''),
      (''rqq'', ''{!knn f=vector topK='' @ str_int rerank_docs @ ''}'' @ str_vector repr v)]"

definition test_reranking_query ::
  "'f tester \<Rightarrow> string \<Rightarrow> string \<Rightarrow> int \<Rightarrow> int \<Rightarrow> (py_exn + 'f json) \<times> 'f tevent list" where
  \<comment> \<open>This method sends its request itself, under \<open>except Exception\<close>: every exception
      of the exchange is reported and \<open>None\<close> returned.\<close>
  "test_reranking_query self initial_query rerank_query rerank_docs rerank_weight =
     (let hdr = [Msg (newline # ''=== Test 4: Re-ranking Query ===''),
                 Msg (''Initial query: '' @ [quote] @ initial_query @ [quote]),
                 Msg (''Rerank query: '' @ [quote] @ rerank_query @ [quote]),
                 Msg (''Rerank docs: '' @ str_int rerank_docs @ '', weight: '' @
                      str_int rerank_weight)]
      in case vectorize_query self rerank_query of
           Inl e \<Rightarrow> (Inl e, hdr)
         | Inr v \<Rightarrow>
             (case http self
                     \<lparr>req_method = GET, req_url = solr_url self @ ''/select'', req_json = None,
                      req_params = rerank_params (float_repr self) initial_query rerank_docs
                                     rerank_weight v\<rparr> of
                Request_exception \<Rightarrow> (Inr JNull, hdr @ [Rerank_error])
              | Raises e \<Rightarrow> (Inr JNull, hdr @ [Rerank_error])
              | Response result \<Rightarrow>
                  if truthy (float_nonzero self) result then
                    (case print_result result of
                       (Some e, ev) \<Rightarrow> (Inl e, hdr @ ev)
                     | (None, ev) \<Rightarrow> (Inr result, hdr @ ev))
                  else (Inr result, hdr)))"

section \<open>Auxiliary definitions for the statements\<close>


definition select_post :: "'f tester \<Rightarrow> 'f json \<Rightarrow> 'f request" where
  \<comment> \<open>The request of \<open>self.make_request("/select?fl=id,text,score", query_data, 'POST')\<close>\<close>
  "select_post self query_data =
     \<lparr>req_method = POST, req_url = solr_url self @ ''/select?fl=id,text,score'',
      req_json = Some query_data, req_params = []\<rparr>"

definition rerank_get :: "'f tester \<Rightarrow> string \<Rightarrow> int \<Rightarrow> int \<Rightarrow> 'f list \<Rightarrow> 'f request" where
  \<comment> \<open>The request of \<open>test_reranking_query\<close>\<close>
  "rerank_get self initial_query rerank_docs rerank_weight v =
     \<lparr>req_method = GET, req_url = solr_url self @ ''/select'', req_json = None,
      req_params = rerank_params (float_repr self) initial_query rerank_docs rerank_weight v\<rparr>"


fun lines_of :: "string \<Rightarrow> string list" where
  \<comment> \<open>The lines that iterating over a text file with this content yields, each with its
      terminating newline (the last one possibly without), for a content without carriage
      returns (text mode would end a line at those too).\<close>
  "lines_of [] = []"
| "lines_of (c # cs) =
     (if c = CHR 0x0A then [c] # lines_of cs
      else (case lines_of cs of
              [] \<Rightarrow> [[c]]
            | l # ls \<Rightarrow> (c # l) # ls))"

fun entries :: "nat \<Rightarrow> (string \<times> string) list \<Rightarrow> doc list" where
  \<comment> \<open>The index entries of the record pairs from ordinal \<open>i\<close> on: one for each pair whose
      vector line decodes, with the ordinal of the pair as its id.\<close>
  "entries i [] = []"
| "entries i ((d, v) # ps) =
     (case parse_vector v of
        None \<Rightarrow> entries (Suc i) ps
      | Some x \<Rightarrow> \<lparr>doc_id = str_nat i, doc_text = strip d, doc_vector = x\<rparr> # entries (Suc i) ps)"

text \<open>Two testers over integer-valued vectors, for the concrete runs below.\<close>

definition error_body_tester :: "int tester" where
  \<comment> \<open>The backend answers every request with a JSON object that has only an \<open>error\<close> field.\<close>
  "error_body_tester =
     \<lparr>solr_url = ''http://localhost:8983/solr/ms-marco'',
      self_model = map (\<lambda>q. [1, 2]),
      http = (\<lambda>req. Response (JDict [(''error'', JStr ''undefined field vector'')])),
      float_repr = str_int,
      float_nonzero = (\<lambda>x. x \<noteq> 0)\<rparr>"

definition unreachable_tester :: "int tester" where
  \<comment> \<open>Every request fails with a \<open>RequestException\<close>.\<close>
  "unreachable_tester =
     \<lparr>solr_url = ''http://localhost:8983/solr/ms-marco'',
      self_model = map (\<lambda>q. [1, 2]),
      http = (\<lambda>req. Request_exception),
      float_repr = str_int,
      float_nonzero = (\<lambda>x. x \<noteq> 0)\<rparr>"

definition demo_embedding :: "string \<Rightarrow> nat list" where
  "demo_embedding d = [length d, 7]"

section \<open>Evaluation lemmas\<close>

lemma str_nat_small:
  "str_nat 0 = ''0''" "str_nat (Suc 0) = ''1''" "str_nat (Suc (Suc 0)) = ''2''"
  by code_simp+

lemma parse_examples:
  "parse_vector ''1.0,2.0'' = Some [FDec False 10 (- 1), FDec False 20 (- 1)]"
  "parse_vector ''x,2.0'' = None"
  "parse_vector ''3.0,4.0'' = Some [FDec False 30 (- 1), FDec False 40 (- 1)]"
  "parse_vector ''0.1,0.2'' = Some [FDec False 1 (- 1), FDec False 2 (- 1)]"
  "parse_vector ''0.3,0.4'' = Some [FDec False 3 (- 1), FDec False 4 (- 1)]"
  "parse_vector ''0.5,0.6'' = Some [FDec False 5 (- 1), FDec False 6 (- 1)]"
  "parse_vector ''nan,inf'' = Some [FNan, FInf False]"
  "parse_vector ''1.0,x'' = None"
  "parse_vector [] = None"
  "parse_vector [CHR 0x0A] = None"
  by code_simp+

lemma py_float_examples:
  "py_float ''nan'' = Some FNan"
  "py_float ''inf'' = Some (FInf False)"
  "py_float ''-inf'' = Some (FInf True)"
  "py_float ''1e-3'' = Some (FDec False 1 (- 3))"
  "py_float '' 2.5 '' = Some (FDec False 25 (- 1))"
  "py_float [] = None"
  "py_float ''x'' = None"
  by code_simp+

lemma floats_None_iff: "floats ws = None \<longleftrightarrow> (\<exists>w\<in>set ws. py_float w = None)"
  by (induction ws) (auto split: option.splits)

lemma str_nat_digits: "set (str_nat n) \<subseteq> set ''0123456789''"
proof (induction n rule: str_nat.induct)
  case (1 n)
  have d: "digit_char k \<in> set ''0123456789''" if "k < 10" for k
    unfolding digit_char_def using that by (intro nth_mem) simp
  show ?case
  proof (cases "n < 10")
    case True
    then show ?thesis by (subst str_nat.simps) (use d[of n] in simp)
  next
    case False
    have "n mod 10 < 10" by simp
    with False 1 d[of "n mod 10"] show ?thesis
      by (subst str_nat.simps) simp
  qed
qed

lemma str_nat_no_newline: "CHR 0x0A \<notin> set (str_nat n)"
  using str_nat_digits[of n] by auto

section \<open>Indexing: batches and skipped records\<close>

lemma index_loop_keeps_all:
  "\<exists>st'. index_loop ack_all st i ps = Inr st' \<and>
     concat (add_calls st') @ documents st' = concat (add_calls st) @ documents st @ entries i ps \<and>
     ([] \<in> set (add_calls st') \<longrightarrow> [] \<in> set (add_calls st))"
proof (induction ps arbitrary: st i)
  case Nil
  then show ?case by simp
next
  case (Cons p ps)
  obtain d v where p: "p = (d, v)" by (cases p)
  show ?case
  proof (cases "parse_vector v")
    case None
    with Cons[of "st\<lparr>printed := printed st @ [Error_processing i]\<rparr>" "Suc i"] p
    show ?thesis by simp
  next
    case (Some x)
    let ?e = "\<lparr>doc_id = str_nat i, doc_text = strip d, doc_vector = x\<rparr>"
    show ?thesis
    proof (cases "i mod BATCH_SIZE = 0 \<and> i \<noteq> 0")
      case True
      with Cons[of "st\<lparr>documents := [], add_calls := add_calls st @ [documents st @ [?e]],
                        printed := printed st @ [Indexed i]\<rparr>" "Suc i"] p Some
      show ?thesis by (auto simp: ack_all_def Let_def)
    next
      case False
      with Cons[of "st\<lparr>documents := documents st @ [?e]\<rparr>" "Suc i"] p Some
      show ?thesis by (auto simp: Let_def)
    qed
  qed
qed

text \<open>
  With a backend that acknowledges every call, a run completes, the batches passed to
  \<open>solr.add\<close> are non-empty, and together they hold, in order, exactly the entries of
  the record pairs whose vector line decodes. (Nothing is said here on their sizes.)
\<close>

lemma index_documents_flushes_all:
  "\<exists>st. index_documents ack_all ds vs = Inr st \<and>
     concat (add_calls st) = entries 0 (zip ds vs) \<and> [] \<notin> set (add_calls st)"
proof -
  from index_loop_keeps_all[of "\<lparr>documents = [], add_calls = [], printed = []\<rparr>" 0 "zip ds vs"]
  obtain st' where
    "index_loop ack_all \<lparr>documents = [], add_calls = [], printed = []\<rparr> 0 (zip ds vs) = Inr st'"
    "concat (add_calls st') @ documents st' = entries 0 (zip ds vs)"
    "[] \<notin> set (add_calls st')" by auto
  then show ?thesis
    by (cases "documents st' = []") (auto simp: index_documents_def ack_all_def)
qed

text \<open>
  Claim C1 (batches of at most \<open>BATCH_SIZE\<close> entries). On 101 documents with 101
  well-formed vector lines the run makes a single call of \<open>solr.add\<close>, with a batch of
  101 entries: the flush test \<open>index % BATCH_SIZE == 0 and index != 0\<close> is first true at
  index 100, after the entry of index 100 has been appended to the entries 0 to 99.
\<close>

theorem first_batch_holds_101_entries:
  "(case index_documents ack_all (replicate 101 ''doc'') (replicate 101 ''1.0'') of
      Inl e \<Rightarrow> False
    | Inr st \<Rightarrow> map length (add_calls st) = [101] \<and> BATCH_SIZE = 100)"
  by code_simp

text \<open>
  Claim C2 (a malformed vector line drops that one record). For the vector lines
  \<open>1.0,2.0\<close>, \<open>x,2.0\<close>, \<open>3.0,4.0\<close> and any three documents, the run completes; the one
  call of \<open>solr.add\<close> gets exactly two entries, with the ids \<open>0\<close> and \<open>2\<close>; and exactly
  one record, the one of ordinal 1, is reported as an error.
\<close>

theorem malformed_vector_skipped:
  "index_documents ack_all [d0, d1, d2] [''1.0,2.0'', ''x,2.0'', ''3.0,4.0''] =
     Inr \<lparr>documents =
            [\<lparr>doc_id = ''0'', doc_text = strip d0,
              doc_vector = [FDec False 10 (- 1), FDec False 20 (- 1)]\<rparr>,
             \<lparr>doc_id = ''2'', doc_text = strip d2,
              doc_vector = [FDec False 30 (- 1), FDec False 40 (- 1)]\<rparr>],
          add_calls =
            [[\<lparr>doc_id = ''0'', doc_text = strip d0,
               doc_vector = [FDec False 10 (- 1), FDec False 20 (- 1)]\<rparr>,
              \<lparr>doc_id = ''2'', doc_text = strip d2,
               doc_vector = [FDec False 30 (- 1), FDec False 40 (- 1)]\<rparr>]],
          printed = [Error_processing 1, Indexed_remaining 2, Indexing_finished]\<rparr>"
  by (simp add: index_documents_def ack_all_def parse_examples str_nat_small BATCH_SIZE_def)

text \<open>
  Claim C5 (pairing stops with the shorter stream). A run on two streams is the run on
  both streams cut to the length of the shorter one, for every backend. In particular
  five documents with three well-formed vector lines give exactly the three entries of
  ordinals 0, 1 and 2 in one call of \<open>solr.add\<close>, the run completes, and nothing is
  reported for the documents of ordinals 3 and 4.
\<close>

theorem truncated_pairing:
  "index_documents solr ds vs =
     index_documents solr (take (min (length ds) (length vs)) ds)
       (take (min (length ds) (length vs)) vs)
   \<and> (parse_vector v0 = Some x0 \<and> parse_vector v1 = Some x1 \<and> parse_vector v2 = Some x2 \<longrightarrow>
       index_documents ack_all [d0, d1, d2, d3, d4] [v0, v1, v2] =
         Inr \<lparr>documents =
                [\<lparr>doc_id = ''0'', doc_text = strip d0, doc_vector = x0\<rparr>,
                 \<lparr>doc_id = ''1'', doc_text = strip d1, doc_vector = x1\<rparr>,
                 \<lparr>doc_id = ''2'', doc_text = strip d2, doc_vector = x2\<rparr>],
              add_calls =
                [[\<lparr>doc_id = ''0'', doc_text = strip d0, doc_vector = x0\<rparr>,
                  \<lparr>doc_id = ''1'', doc_text = strip d1, doc_vector = x1\<rparr>,
                  \<lparr>doc_id = ''2'', doc_text = strip d2, doc_vector = x2\<rparr>]],
              printed = [Indexed_remaining 3, Indexing_finished]\<rparr>)"
proof -
  have "index_documents solr ds vs =
     index_documents solr (take (min (length ds) (length vs)) ds)
       (take (min (length ds) (length vs)) vs)"
    by (simp add: index_documents_def flip: take_zip)
  then show ?thesis
    by (simp add: index_documents_def ack_all_def str_nat_small BATCH_SIZE_def)
qed

theorem truncated_pairing_witness:
  "parse_vector ''0.1,0.2'' = Some [FDec False 1 (- 1), FDec False 2 (- 1)] \<and>
   parse_vector ''0.3,0.4'' = Some [FDec False 3 (- 1), FDec False 4 (- 1)] \<and>
   parse_vector ''0.5,0.6'' = Some [FDec False 5 (- 1), FDec False 6 (- 1)] \<and>
   index_documents ack_all [''a'', ''b'', ''c'', ''d'', ''e'']
       [''0.1,0.2'', ''0.3,0.4'', ''0.5,0.6''] =
     Inr \<lparr>documents =
            [\<lparr>doc_id = ''0'', doc_text = strip ''a'',
              doc_vector = [FDec False 1 (- 1), FDec False 2 (- 1)]\<rparr>,
             \<lparr>doc_id = ''1'', doc_text = strip ''b'',
              doc_vector = [FDec False 3 (- 1), FDec False 4 (- 1)]\<rparr>,
             \<lparr>doc_id = ''2'', doc_text = strip ''c'',
              doc_vector = [FDec False 5 (- 1), FDec False 6 (- 1)]\<rparr>],
          add_calls =
            [[\<lparr>doc_id = ''0'', doc_text = strip ''a'',
               doc_vector = [FDec False 1 (- 1), FDec False 2 (- 1)]\<rparr>,
              \<lparr>doc_id = ''1'', doc_text = strip ''b'',
               doc_vector = [FDec False 3 (- 1), FDec False 4 (- 1)]\<rparr>,
              \<lparr>doc_id = ''2'', doc_text = strip ''c'',
               doc_vector = [FDec False 5 (- 1), FDec False 6 (- 1)]\<rparr>]],
          printed = [Indexed_remaining 3, Indexing_finished]\<rparr>"
  using truncated_pairing[of ack_all "[]" "[]"
      "''0.1,0.2''" "[FDec False 1 (- 1), FDec False 2 (- 1)]"
      "''0.3,0.4''" "[FDec False 3 (- 1), FDec False 4 (- 1)]"
      "''0.5,0.6''" "[FDec False 5 (- 1), FDec False 6 (- 1)]"
      "''a''" "''b''" "''c''" "''d''" "''e''"] parse_examples
  by blast

text \<open>
  Claim C9 (empty input). With no documents, whatever the vector file holds and however
  the backend behaves, the run completes and \<open>solr.add\<close> is never called.
\<close>

theorem empty_input_no_add:
  "index_documents solr [] vectors_file =
     Inr \<lparr>documents = [], add_calls = [], printed = [Indexing_finished]\<rparr>"
  by (simp add: index_documents_def)

text \<open>
  Claim C10 (when decoding a vector line fails). Decoding fails exactly when \<open>float\<close>
  rejects one of the comma-separated tokens of the stripped line. \<open>float\<close> accepts
  \<open>nan\<close>, \<open>inf\<close>, \<open>-inf\<close>, exponent notation and surrounding blanks, and rejects the empty
  token; so the line \<open>nan,inf\<close> is indexed as a vector, and a blank line is not.
\<close>

theorem vector_line_decoding:
  "(parse_vector line = None \<longleftrightarrow>
      (\<exists>w\<in>set (split_on CHR '','' (strip line)). py_float w = None))
   \<and> py_float ''nan'' = Some FNan
   \<and> py_float ''inf'' = Some (FInf False)
   \<and> py_float ''-inf'' = Some (FInf True)
   \<and> py_float ''1e-3'' = Some (FDec False 1 (- 3))
   \<and> py_float '' 2.5 '' = Some (FDec False 25 (- 1))
   \<and> py_float [] = None
   \<and> parse_vector [CHR 0x0A] = None
   \<and> index_documents ack_all [d] [''nan,inf''] =
       Inr \<lparr>documents = [\<lparr>doc_id = ''0'', doc_text = strip d, doc_vector = [FNan, FInf False]\<rparr>],
            add_calls = [[\<lparr>doc_id = ''0'', doc_text = strip d, doc_vector = [FNan, FInf False]\<rparr>]],
            printed = [Indexed_remaining 1, Indexing_finished]\<rparr>"
proof -
  have a: "parse_vector line = None \<longleftrightarrow>
      (\<exists>w\<in>set (split_on CHR '','' (strip line)). py_float w = None)"
    by (simp add: parse_vector_def floats_None_iff)
  have b: "index_documents ack_all [d] [''nan,inf''] =
       Inr \<lparr>documents = [\<lparr>doc_id = ''0'', doc_text = strip d, doc_vector = [FNan, FInf False]\<rparr>],
            add_calls = [[\<lparr>doc_id = ''0'', doc_text = strip d, doc_vector = [FNan, FInf False]\<rparr>]],
            printed = [Indexed_remaining 1, Indexing_finished]\<rparr>"
    by (simp add: index_documents_def ack_all_def parse_examples str_nat_small BATCH_SIZE_def)
  show ?thesis
    by (intro conjI a b py_float_examples parse_examples)
qed

theorem vector_line_decoding_witness:
  "parse_vector ''1.0,x'' = None \<and>
   (\<exists>w\<in>set (split_on CHR '','' (strip ''1.0,x'')). py_float w = None)"
  using vector_line_decoding[of "''1.0,x''"] parse_examples by blast

section \<open>Vector generation: one line per document, in order\<close>

lemma write_vectors_eq:
  "write_vectors str_c f vs = f @ concat (map (\<lambda>v. join '','' (map str_c v) @ [CHR 0x0A]) vs)"
  by (induction vs arbitrary: f) simp_all

lemma batch_loop_out:
  assumes m: "\<forall>ds. model ds = map emb ds"
  shows "\<exists>st'. batch_loop model str_c st ds = Inr st' \<and>
           out st' = out st @ concat (map (\<lambda>d. join '','' (map str_c (emb d)) @ [CHR 0x0A]) ds)"
proof (induction "length ds" arbitrary: ds st rule: less_induct)
  case less
  show ?case
  proof (cases "ds = []")
    case True
    then show ?thesis by (simp add: batch_loop.simps)
  next
    case False
    let ?b = "take BATCH_SIZE ds"
    let ?line = "\<lambda>d. join '','' (map str_c (emb d)) @ [CHR 0x0A]"
    from False have ne: "?b \<noteq> []" by (simp add: BATCH_SIZE_def)
    then obtain e es where enc: "model ?b = e # es"
      using m by (cases "model ?b") auto
    have vs: "e # es = map emb ?b" using m enc by metis
    let ?st = "\<lparr>out = write_vectors str_c (out st) (e # es), processed = processed st + 1,
                gen_printed = gen_printed st @
                  (if (processed st + 1) mod INFO_UPDATE_FACTOR = 0
                   then [Processed (processed st + 1)] else []) @
                  [Vector_dimension (length e)]\<rparr>"
    have step: "batch_loop model str_c st ds = batch_loop model str_c ?st (drop BATCH_SIZE ds)"
      using ne enc by (subst batch_loop.simps) (simp add: encode_def Let_def)
    have "length (drop BATCH_SIZE ds) < length ds"
      using False by (simp add: BATCH_SIZE_def)
    from less[OF this, of ?st] obtain st' where
      r: "batch_loop model str_c ?st (drop BATCH_SIZE ds) = Inr st'" and
      o: "out st' = out ?st @ concat (map ?line (drop BATCH_SIZE ds))" by blast
    have "out ?st = out st @ concat (map ?line ?b)"
      by (simp add: write_vectors_eq vs comp_def del: write_vectors.simps)
    moreover have "concat (map ?line ?b) @ concat (map ?line (drop BATCH_SIZE ds)) =
        concat (map ?line ds)"
      by (metis append_take_drop_id concat_append map_append)
    ultimately have "out st' = out st @ concat (map ?line ds)" using o by simp
    with r step show ?thesis by simp
  qed
qed

lemma lines_of_line:
  "CHR 0x0A \<notin> set l \<Longrightarrow> lines_of (l @ CHR 0x0A # rest) = (l @ [CHR 0x0A]) # lines_of rest"
  by (induction l) auto

lemma join_no_newline:
  "\<forall>x\<in>set xs. CHR 0x0A \<notin> set x \<Longrightarrow> CHR 0x0A \<notin> set (join '','' xs)"
  by (induction "'',''" xs rule: join.induct) auto

lemma lines_of_concat:
  "\<forall>l\<in>set ls. CHR 0x0A \<notin> set l \<Longrightarrow>
     lines_of (concat (map (\<lambda>l. l @ [CHR 0x0A]) ls)) = map (\<lambda>l. l @ [CHR 0x0A]) ls"
  by (induction ls) (simp_all add: lines_of_line)

text \<open>
  Claim C3 (generated vectors keep the order of the documents). If the model embeds each
  document of a batch on its own and in order (\<open>model ds = map emb ds\<close>), then for every
  input, of any length, the run completes and the output file is the concatenation, in
  input order, of one newline-terminated line per document, the line of document \<open>d\<close>
  being the comma-joined components of \<open>emb d\<close>. If moreover no component is printed
  with a newline in it, line \<open>i\<close> of the file is the line of document \<open>i\<close>.
\<close>

theorem generated_vectors_in_order:
  assumes "\<forall>ds. model ds = map emb ds"
  shows "\<exists>st. batch_encode_to_vectors model str_c documents_file = Inr st \<and>
           out st =
             concat (map (\<lambda>d. join '','' (map str_c (emb d)) @ [CHR 0x0A]) documents_file) \<and>
           ((\<forall>c. CHR 0x0A \<notin> set (str_c c)) \<longrightarrow>
              lines_of (out st) =
                map (\<lambda>d. join '','' (map str_c (emb d)) @ [CHR 0x0A]) documents_file)"
proof -
  let ?line = "\<lambda>d. join '','' (map str_c (emb d))"
  from batch_loop_out[OF assms, of str_c "\<lparr>out = [], processed = 0, gen_printed = []\<rparr>"
      documents_file]
  obtain st where r: "batch_encode_to_vectors model str_c documents_file = Inr st"
    and o: "out st = concat (map (\<lambda>d. ?line d @ [CHR 0x0A]) documents_file)"
    by (auto simp: batch_encode_to_vectors_def)
  have "lines_of (out st) = map (\<lambda>d. ?line d @ [CHR 0x0A]) documents_file"
    if nn: "\<forall>c. CHR 0x0A \<notin> set (str_c c)"
  proof -
    have "\<forall>l\<in>set (map ?line documents_file). CHR 0x0A \<notin> set l"
      using nn by (auto intro!: join_no_newline)
    from lines_of_concat[OF this] o show ?thesis by (simp add: comp_def)
  qed
  with r o show ?thesis by blast
qed

lemma demo_lines:
  "map (\<lambda>d. join '','' (map str_nat (demo_embedding d)) @ [CHR 0x0A]) [''a'', ''bb'', ''ccc''] =
     [''1,7'' @ [CHR 0x0A], ''2,7'' @ [CHR 0x0A], ''3,7'' @ [CHR 0x0A]]"
  by code_simp

theorem generated_vectors_in_order_witness:
  "(\<forall>ds. map demo_embedding ds = map demo_embedding ds) \<and>
   (\<forall>c. CHR 0x0A \<notin> set (str_nat c)) \<and>
   (\<exists>st. batch_encode_to_vectors (map demo_embedding) str_nat [''a'', ''bb'', ''ccc''] = Inr st \<and>
      out st = ''1,7'' @ [CHR 0x0A] @ ''2,7'' @ [CHR 0x0A] @ ''3,7'' @ [CHR 0x0A] \<and>
      lines_of (out st) = [''1,7'' @ [CHR 0x0A], ''2,7'' @ [CHR 0x0A], ''3,7'' @ [CHR 0x0A]])"
proof -
  have h: "\<forall>ds. map demo_embedding ds = map demo_embedding ds" by simp
  from generated_vectors_in_order[OF h, of str_nat "[''a'', ''bb'', ''ccc'']"]
  show ?thesis
    unfolding demo_lines using str_nat_no_newline by auto
qed

section \<open>Queries: payloads and responses\<close>

text \<open>
  Claim C7 (payload of the filtered KNN query). For every vector, \<open>top_k\<close> and list of
  ids, the payload has exactly the two fields \<open>query\<close> and \<open>filter\<close>: the filter is
  \<open>id:(\<close>, the ids joined by single spaces in input order, and \<open>)\<close>; the query is the KNN
  clause on the field \<open>vector\<close> with the given \<open>top_k\<close>, followed by the vector. For
  the ids \<open>0\<close>, \<open>1\<close> and \<open>top_k = 3\<close> the filter is \<open>id:(0 1)\<close> and the clause starts
  with \<open>{!knn f=vector topK=3}\<close>.
\<close>

theorem filtered_knn_payload:
  "prefiltering_query_data repr top_k filter_ids v =
     JDict [(''query'', JStr (''{!knn f=vector topK='' @ str_int top_k @ ''}'' @ str_vector repr v)),
            (''filter'', JStr (''id:('' @ join '' '' filter_ids @ '')''))]
   \<and> join '' '' [a] = a
   \<and> join '' '' (a # b # ids) = a @ '' '' @ join '' '' (b # ids)
   \<and> prefiltering_query_data repr 3 [''0'', ''1''] v =
       JDict [(''query'', JStr (''{!knn f=vector topK=3}'' @ str_vector repr v)),
              (''filter'', JStr ''id:(0 1)'')]"
proof -
  have "str_int 3 = ''3''" by code_simp
  then show ?thesis
    by (simp add: prefiltering_query_data_def knn_clause_def)
qed

text \<open>
  Claim C8 (payload of the hybrid query). For every vector, field, lexical text and
  \<open>top_k\<close>, the payload is \<open>{query: {bool: {should: [lexical, knn]}}}\<close>: the only key
  under \<open>bool\<close> is \<open>should\<close>, and its list has exactly two clauses, the edismax clause
  on the given field with the given text, and the KNN clause on the field \<open>vector\<close> with
  the given \<open>top_k\<close>.
\<close>

theorem hybrid_payload:
  "hybrid_query_data repr top_k lexical_field lexical_query v =
     JDict [(''query'', JDict [(''bool'', JDict [(''should'',
       JList [JStr (''{!type=edismax qf='' @ lexical_field @ '' v='' @ [quote] @
                    lexical_query @ [quote] @ ''}''),
              JStr (''{!knn f=vector topK='' @ str_int top_k @ ''}'' @ str_vector repr v)])])])]
   \<and> (case subscript (hybrid_query_data repr top_k lexical_field lexical_query v) ''query'' of
        Inr (JDict [(k, JDict [(k', JList clauses)])]) \<Rightarrow>
          k = ''bool'' \<and> k' = ''should'' \<and> length clauses = 2
      | _ \<Rightarrow> False)"
  by (simp add: hybrid_query_data_def knn_clause_def)

text \<open>
  Claim C6, as the claim states it, fails: when the backend answers with a JSON object
  that has no \<open>response\<close> field, \<open>test_basic_knn_query\<close> raises KeyError to its caller.
\<close>

theorem missing_response_field_raises:
  "fst (test_basic_knn_query error_body_tester ''what is a bank transit number'' 3) = Inl KeyError"
  by (simp add: test_basic_knn_query_def error_body_tester_def vectorize_query_def
      execute_query_def make_request_def print_result_def)

text \<open>
  A response that is \<open>None\<close> or otherwise false is returned as it is; a true one is
  printed, and printing looks the fields up without any check.
\<close>

lemma execute_query_failed_request:
  "http self (select_post self query_data) = Request_exception \<Longrightarrow>
     execute_query self query_data =
       (Inr JNull, [Request_error (solr_url self @ ''/select?fl=id,text,score'')])"
  by (simp add: execute_query_def make_request_def select_post_def)

lemma execute_query_without_response_field:
  "http self (select_post self query_data) = Response (JDict kvs) \<Longrightarrow> kvs \<noteq> [] \<Longrightarrow>
     map_of kvs ''response'' = None \<Longrightarrow>
     execute_query self query_data = (Inl KeyError, [])"
  by (simp add: execute_query_def make_request_def select_post_def print_result_def)

lemma reranking_catches_every_exception:
  "vectorize_query self query = Inr v \<Longrightarrow>
   http self (rerank_get self initial_query rerank_docs rerank_weight v) = Raises e \<Longrightarrow>
     fst (test_reranking_query self initial_query query rerank_docs rerank_weight) = Inr JNull"
  by (simp add: test_reranking_query_def rerank_get_def)

text \<open>
  Claim C6, amended. For each of the four query operations (plain KNN, filtered KNN,
  hybrid, re-ranking): when the request itself fails with a \<open>RequestException\<close>, the
  operation reports the error, returns \<open>None\<close> and raises nothing; when the backend
  answers with a non-empty JSON object without a \<open>response\<close> field, the operation
  raises KeyError to its caller.
\<close>

theorem query_operations_on_failed_request:
  assumes "vectorize_query self query = Inr v"
  shows
   "(http self (select_post self (basic_knn_query_data (float_repr self) top_k v)) = Request_exception \<longrightarrow>
       test_basic_knn_query self query top_k =
         (Inr JNull,
         [Msg (newline # ''=== Test 1: Basic KNN Query ===''),
          Msg (''Query: '' @ [quote] @ query @ [quote]),
          Msg (''TopK: '' @ str_int top_k),
          Request_error (solr_url self @ ''/select?fl=id,text,score'')]))
   \<and> (http self (select_post self (prefiltering_query_data (float_repr self) top_k filter_ids v)) = Request_exception \<longrightarrow>
       test_knn_with_prefiltering self query filter_ids top_k =
         (Inr JNull,
         [Msg (newline # ''=== Test 2: KNN with Pre-filtering ===''),
          Msg (''Query: '' @ [quote] @ query @ [quote]),
          Filter_ids filter_ids,
          Msg (''TopK: '' @ str_int top_k),
          Request_error (solr_url self @ ''/select?fl=id,text,score'')]))
   \<and> (http self (select_post self (hybrid_query_data (float_repr self) top_k lexical_field lexical_query v)) = Request_exception \<longrightarrow>
       test_hybrid_search self query lexical_field lexical_query top_k =
         (Inr JNull,
         [Msg (newline # ''=== Test 3: Hybrid Search ===''),
          Msg (''Neural query: '' @ [quote] @ query @ [quote]),
          Msg (''Lexical query: '' @ [quote] @ lexical_query @ [quote] @
               '' in field '' @ [quote] @ lexical_field @ [quote]),
          Msg (''TopK: '' @ str_int top_k),
          Request_error (solr_url self @ ''/select?fl=id,text,score'')]))
   \<and> (http self (rerank_get self initial_query rerank_docs rerank_weight v) = Request_exception \<longrightarrow>
       test_reranking_query self initial_query query rerank_docs rerank_weight =
         (Inr JNull,
         [Msg (newline # ''=== Test 4: Re-ranking Query ===''),
          Msg (''Initial query: '' @ [quote] @ initial_query @ [quote]),
          Msg (''Rerank query: '' @ [quote] @ query @ [quote]),
          Msg (''Rerank docs: '' @ str_int rerank_docs @ '', weight: '' @ str_int rerank_weight),
          Rerank_error]))
   \<and> (\<forall>kvs. kvs \<noteq> [] \<and> map_of kvs ''response'' = None \<longrightarrow>
       (http self (select_post self (basic_knn_query_data (float_repr self) top_k v)) = Response (JDict kvs) \<longrightarrow>
           fst (test_basic_knn_query self query top_k) = Inl KeyError)
       \<and> (http self (select_post self (prefiltering_query_data (float_repr self) top_k filter_ids v)) = Response (JDict kvs) \<longrightarrow>
           fst (test_knn_with_prefiltering self query filter_ids top_k) = Inl KeyError)
       \<and> (http self (select_post self (hybrid_query_data (float_repr self) top_k lexical_field lexical_query v)) = Response (JDict kvs) \<longrightarrow>
           fst (test_hybrid_search self query lexical_field lexical_query top_k) = Inl KeyError)
       \<and> (http self (rerank_get self initial_query rerank_docs rerank_weight v) = Response (JDict kvs) \<longrightarrow>
           fst (test_reranking_query self initial_query query rerank_docs rerank_weight) = Inl KeyError))"
proof -
  have basic: "test_basic_knn_query self query top_k =
      (case execute_query self (basic_knn_query_data (float_repr self) top_k v) of
         (r, ev) \<Rightarrow> (r, [Msg (newline # ''=== Test 1: Basic KNN Query ===''),
          Msg (''Query: '' @ [quote] @ query @ [quote]),
          Msg (''TopK: '' @ str_int top_k)] @ ev))"
    using assms by (simp add: test_basic_knn_query_def)
  have pref: "test_knn_with_prefiltering self query filter_ids top_k =
      (case execute_query self (prefiltering_query_data (float_repr self) top_k filter_ids v) of
         (r, ev) \<Rightarrow> (r, [Msg (newline # ''=== Test 2: KNN with Pre-filtering ===''),
          Msg (''Query: '' @ [quote] @ query @ [quote]),
          Filter_ids filter_ids,
          Msg (''TopK: '' @ str_int top_k)] @ ev))"
    using assms by (simp add: test_knn_with_prefiltering_def)
  have hyb: "test_hybrid_search self query lexical_field lexical_query top_k =
      (case execute_query self
              (hybrid_query_data (float_repr self) top_k lexical_field lexical_query v) of
         (r, ev) \<Rightarrow> (r, [Msg (newline # ''=== Test 3: Hybrid Search ===''),
          Msg (''Neural query: '' @ [quote] @ query @ [quote]),
          Msg (''Lexical query: '' @ [quote] @ lexical_query @ [quote] @
               '' in field '' @ [quote] @ lexical_field @ [quote]),
          Msg (''TopK: '' @ str_int top_k)] @ ev))"
    using assms by (simp add: test_hybrid_search_def)
  have rr1: "http self (rerank_get self initial_query rerank_docs rerank_weight v) = Request_exception
      \<longrightarrow> test_reranking_query self initial_query query rerank_docs rerank_weight =
         (Inr JNull,
         [Msg (newline # ''=== Test 4: Re-ranking Query ===''),
          Msg (''Initial query: '' @ [quote] @ initial_query @ [quote]),
          Msg (''Rerank query: '' @ [quote] @ query @ [quote]),
          Msg (''Rerank docs: '' @ str_int rerank_docs @ '', weight: '' @ str_int rerank_weight),
          Rerank_error])"
    using assms by (simp add: test_reranking_query_def rerank_get_def)
  have rr2: "kvs \<noteq> [] \<and> map_of kvs ''response'' = None \<longrightarrow>
      http self (rerank_get self initial_query rerank_docs rerank_weight v) = Response (JDict kvs)
      \<longrightarrow> fst (test_reranking_query self initial_query query rerank_docs rerank_weight) =
            Inl KeyError" for kvs
    using assms by (simp add: test_reranking_query_def rerank_get_def print_result_def)
  show ?thesis
    using rr1 rr2
    by (simp add: basic pref hyb execute_query_failed_request
        execute_query_without_response_field)
qed

theorem query_operations_on_failed_request_witness:
  "vectorize_query unreachable_tester ''bank'' = Inr [1, 2] \<and>
   http unreachable_tester (select_post unreachable_tester (basic_knn_query_data (float_repr unreachable_tester) 3 [1, 2])) = Request_exception \<and>
   http unreachable_tester (select_post unreachable_tester (prefiltering_query_data (float_repr unreachable_tester) 3 [''0'', ''1''] [1, 2])) = Request_exception \<and>
   http unreachable_tester (select_post unreachable_tester (hybrid_query_data (float_repr unreachable_tester) 3 ''text'' ''bank'' [1, 2])) = Request_exception \<and>
   http unreachable_tester (rerank_get unreachable_tester ''id:(0 1 2 3 4)'' 4 1 [1, 2]) = Request_exception \<and>
   test_basic_knn_query unreachable_tester ''bank'' 3 =
     (Inr JNull,
         [Msg (newline # ''=== Test 1: Basic KNN Query ===''),
          Msg (''Query: '' @ [quote] @ ''bank'' @ [quote]),
          Msg (''TopK: '' @ str_int 3),
          Request_error (solr_url unreachable_tester @ ''/select?fl=id,text,score'')]) \<and>
   test_knn_with_prefiltering unreachable_tester ''bank'' [''0'', ''1''] 3 =
     (Inr JNull,
         [Msg (newline # ''=== Test 2: KNN with Pre-filtering ===''),
          Msg (''Query: '' @ [quote] @ ''bank'' @ [quote]),
          Filter_ids [''0'', ''1''],
          Msg (''TopK: '' @ str_int 3),
          Request_error (solr_url unreachable_tester @ ''/select?fl=id,text,score'')]) \<and>
   test_hybrid_search unreachable_tester ''bank'' ''text'' ''bank'' 3 =
     (Inr JNull,
         [Msg (newline # ''=== Test 3: Hybrid Search ===''),
          Msg (''Neural query: '' @ [quote] @ ''bank'' @ [quote]),
          Msg (''Lexical query: '' @ [quote] @ ''bank'' @ [quote] @
               '' in field '' @ [quote] @ ''text'' @ [quote]),
          Msg (''TopK: '' @ str_int 3),
          Request_error (solr_url unreachable_tester @ ''/select?fl=id,text,score'')]) \<and>
   test_reranking_query unreachable_tester ''id:(0 1 2 3 4)'' ''bank'' 4 1 =
     (Inr JNull,
         [Msg (newline # ''=== Test 4: Re-ranking Query ===''),
          Msg (''Initial query: '' @ [quote] @ ''id:(0 1 2 3 4)'' @ [quote]),
          Msg (''Rerank query: '' @ [quote] @ ''bank'' @ [quote]),
          Msg (''Rerank docs: '' @ str_int 4 @ '', weight: '' @ str_int 1),
          Rerank_error]) \<and>
   vectorize_query error_body_tester ''bank'' = Inr [1, 2] \<and>
   [(''error'', JStr ''undefined field vector'')] \<noteq> ([] :: (string \<times> int json) list) \<and>
   map_of [(''error'', JStr ''undefined field vector'')] ''response'' = (None :: int json option) \<and>
   http error_body_tester (select_post error_body_tester (basic_knn_query_data (float_repr error_body_tester) 3 [1, 2])) =
     Response (JDict [(''error'', JStr ''undefined field vector'')]) \<and>
   http error_body_tester (select_post error_body_tester (prefiltering_query_data (float_repr error_body_tester) 3 [''0'', ''1''] [1, 2])) =
     Response (JDict [(''error'', JStr ''undefined field vector'')]) \<and>
   http error_body_tester (select_post error_body_tester (hybrid_query_data (float_repr error_body_tester) 3 ''text'' ''bank'' [1, 2])) =
     Response (JDict [(''error'', JStr ''undefined field vector'')]) \<and>
   http error_body_tester (rerank_get error_body_tester ''id:(0 1 2 3 4)'' 4 1 [1, 2]) =
     Response (JDict [(''error'', JStr ''undefined field vector'')]) \<and>
   fst (test_basic_knn_query error_body_tester ''bank'' 3) = Inl KeyError \<and>
   fst (test_knn_with_prefiltering error_body_tester ''bank'' [''0'', ''1''] 3) = Inl KeyError \<and>
   fst (test_hybrid_search error_body_tester ''bank'' ''text'' ''bank'' 3) = Inl KeyError \<and>
   fst (test_reranking_query error_body_tester ''id:(0 1 2 3 4)'' ''bank'' 4 1) = Inl KeyError"
proof -
  have v1: "vectorize_query unreachable_tester ''bank'' = Inr [1, 2]"
    by (simp add: vectorize_query_def unreachable_tester_def)
  have v2: "vectorize_query error_body_tester ''bank'' = Inr [1, 2]"
    by (simp add: vectorize_query_def error_body_tester_def)
  have h1a: "http unreachable_tester (select_post unreachable_tester (basic_knn_query_data (float_repr unreachable_tester) 3 [1, 2])) = Request_exception"
    by (simp add: unreachable_tester_def)
  have h1b: "http unreachable_tester (select_post unreachable_tester (prefiltering_query_data (float_repr unreachable_tester) 3 [''0'', ''1''] [1, 2])) = Request_exception"
    by (simp add: unreachable_tester_def)
  have h1c: "http unreachable_tester (select_post unreachable_tester (hybrid_query_data (float_repr unreachable_tester) 3 ''text'' ''bank'' [1, 2])) = Request_exception"
    by (simp add: unreachable_tester_def)
  have h1d: "http unreachable_tester (rerank_get unreachable_tester ''id:(0 1 2 3 4)'' 4 1 [1, 2]) = Request_exception"
    by (simp add: unreachable_tester_def)
  have h2a: "http error_body_tester (select_post error_body_tester (basic_knn_query_data (float_repr error_body_tester) 3 [1, 2])) =
     Response (JDict [(''error'', JStr ''undefined field vector'')])"
    by (simp add: error_body_tester_def)
  have h2b: "http error_body_tester (select_post error_body_tester (prefiltering_query_data (float_repr error_body_tester) 3 [''0'', ''1''] [1, 2])) =
     Response (JDict [(''error'', JStr ''undefined field vector'')])"
    by (simp add: error_body_tester_def)
  have h2c: "http error_body_tester (select_post error_body_tester (hybrid_query_data (float_repr error_body_tester) 3 ''text'' ''bank'' [1, 2])) =
     Response (JDict [(''error'', JStr ''undefined field vector'')])"
    by (simp add: error_body_tester_def)
  have h2d: "http error_body_tester (rerank_get error_body_tester ''id:(0 1 2 3 4)'' 4 1 [1, 2]) =
     Response (JDict [(''error'', JStr ''undefined field vector'')])"
    by (simp add: error_body_tester_def)
  have k: "[(''error'', JStr ''undefined field vector'')] \<noteq> ([] :: (string \<times> int json) list) \<and>
   map_of [(''error'', JStr ''undefined field vector'')] ''response'' = (None :: int json option)"
    by simp
  note t1 = query_operations_on_failed_request[OF v1, where top_k = 3 and filter_ids = "[''0'', ''1'']" and lexical_field = "''text''"
      and lexical_query = "''bank''" and initial_query = "''id:(0 1 2 3 4)''" and rerank_docs = 4
      and rerank_weight = 1]
  note t2 = query_operations_on_failed_request[OF v2, where top_k = 3 and filter_ids = "[''0'', ''1'']" and lexical_field = "''text''"
      and lexical_query = "''bank''" and initial_query = "''id:(0 1 2 3 4)''" and rerank_docs = 4
      and rerank_weight = 1]
  have c1a: "test_basic_knn_query unreachable_tester ''bank'' 3 =
     (Inr JNull,
         [Msg (newline # ''=== Test 1: Basic KNN Query ===''),
          Msg (''Query: '' @ [quote] @ ''bank'' @ [quote]),
          Msg (''TopK: '' @ str_int 3),
          Request_error (solr_url unreachable_tester @ ''/select?fl=id,text,score'')])"
    using t1 h1a h1b h1c h1d by blast
  have c1b: "test_knn_with_prefiltering unreachable_tester ''bank'' [''0'', ''1''] 3 =
     (Inr JNull,
         [Msg (newline # ''=== Test 2: KNN with Pre-filtering ===''),
          Msg (''Query: '' @ [quote] @ ''bank'' @ [quote]),
          Filter_ids [''0'', ''1''],
          Msg (''TopK: '' @ str_int 3),
          Request_error (solr_url unreachable_tester @ ''/select?fl=id,text,score'')])"
    using t1 h1a h1b h1c h1d by blast
  have c1c: "test_hybrid_search unreachable_tester ''bank'' ''text'' ''bank'' 3 =
     (Inr JNull,
         [Msg (newline # ''=== Test 3: Hybrid Search ===''),
          Msg (''Neural query: '' @ [quote] @ ''bank'' @ [quote]),
          Msg (''Lexical query: '' @ [quote] @ ''bank'' @ [quote] @
               '' in field '' @ [quote] @ ''text'' @ [quote]),
          Msg (''TopK: '' @ str_int 3),
          Request_error (solr_url unreachable_tester @ ''/select?fl=id,text,score'')])"
    using t1 h1a h1b h1c h1d by blast
  have c1d: "test_reranking_query unreachable_tester ''id:(0 1 2 3 4)'' ''bank'' 4 1 =
     (Inr JNull,
         [Msg (newline # ''=== Test 4: Re-ranking Query ===''),
          Msg (''Initial query: '' @ [quote] @ ''id:(0 1 2 3 4)'' @ [quote]),
          Msg (''Rerank query: '' @ [quote] @ ''bank'' @ [quote]),
          Msg (''Rerank docs: '' @ str_int 4 @ '', weight: '' @ str_int 1),
          Rerank_error])"
    using t1 h1a h1b h1c h1d by blast
  have c2a: "fst (test_basic_knn_query error_body_tester ''bank'' 3) = Inl KeyError"
    using t2 h2a h2b h2c h2d k by blast
  have c2b: "fst (test_knn_with_prefiltering error_body_tester ''bank'' [''0'', ''1''] 3) = Inl KeyError"
    using t2 h2a h2b h2c h2d k by blast
  have c2c: "fst (test_hybrid_search error_body_tester ''bank'' ''text'' ''bank'' 3) = Inl KeyError"
    using t2 h2a h2b h2c h2d k by blast
  have c2d: "fst (test_reranking_query error_body_tester ''id:(0 1 2 3 4)'' ''bank'' 4 1) = Inl KeyError"
    using t2 h2a h2b h2c h2d k by blast
  show ?thesis
    using v1 h1a h1b h1c h1d c1a c1b c1c c1d v2 k h2a h2b h2c h2d c2a c2b c2c c2d
    by blast
qed

section \<open>Vector codec: decoding an encoded line\<close>












end
